theory Spec2Isabelle
  imports Complex_Main
begin

section \<open>Numbers of the source language\<close>

text \<open>
  The indicators of \<^verbatim>\<open>src/index.ts\<close> compute on the \<^verbatim>\<open>number\<close> type. A number is
  modelled as an exact real extended with the three special values that the formulas
  can produce and propagate: positive infinity, negative infinity and not-a-number.
  Arithmetic on finite values is exact (rounding and overflow are not modelled) and
  there is one zero, which behaves as the positive zero (a finite positive value divided
  by it is positive infinity). The special values follow the rules of the language:
  not-a-number is absorbing, opposite infinities cancel to not-a-number, infinity times
  zero and zero divided by zero are not-a-number.
\<close>

datatype jsnum = Num real | PosInf | NegInf | NaN

instantiation jsnum :: "{plus, uminus, minus, times, inverse}"
begin

fun plus_jsnum :: "jsnum \<Rightarrow> jsnum \<Rightarrow> jsnum" where
  "plus_jsnum (Num a) (Num b) = Num (a + b)"
| "plus_jsnum (Num a) PosInf = PosInf"
| "plus_jsnum (Num a) NegInf = NegInf"
| "plus_jsnum PosInf (Num b) = PosInf"
| "plus_jsnum PosInf PosInf = PosInf"
| "plus_jsnum PosInf NegInf = NaN"
| "plus_jsnum NegInf (Num b) = NegInf"
| "plus_jsnum NegInf PosInf = NaN"
| "plus_jsnum NegInf NegInf = NegInf"
| "plus_jsnum NaN y = NaN"
| "plus_jsnum x NaN = NaN"

fun uminus_jsnum :: "jsnum \<Rightarrow> jsnum" where
  "uminus_jsnum (Num a) = Num (- a)"
| "uminus_jsnum PosInf = NegInf"
| "uminus_jsnum NegInf = PosInf"
| "uminus_jsnum NaN = NaN"

definition minus_jsnum :: "jsnum \<Rightarrow> jsnum \<Rightarrow> jsnum" where
  "minus_jsnum x y = x + (- y)"

fun times_jsnum :: "jsnum \<Rightarrow> jsnum \<Rightarrow> jsnum" where
  "times_jsnum (Num a) (Num b) = Num (a * b)"
| "times_jsnum (Num a) PosInf = (if a = 0 then NaN else if 0 < a then PosInf else NegInf)"
| "times_jsnum (Num a) NegInf = (if a = 0 then NaN else if 0 < a then NegInf else PosInf)"
| "times_jsnum PosInf (Num b) = (if b = 0 then NaN else if 0 < b then PosInf else NegInf)"
| "times_jsnum NegInf (Num b) = (if b = 0 then NaN else if 0 < b then NegInf else PosInf)"
| "times_jsnum PosInf PosInf = PosInf"
| "times_jsnum PosInf NegInf = NegInf"
| "times_jsnum NegInf PosInf = NegInf"
| "times_jsnum NegInf NegInf = PosInf"
| "times_jsnum NaN y = NaN"
| "times_jsnum x NaN = NaN"

fun divide_jsnum :: "jsnum \<Rightarrow> jsnum \<Rightarrow> jsnum" where
  "divide_jsnum (Num a) (Num b) =
     (if b = 0 then (if a = 0 then NaN else if 0 < a then PosInf else NegInf)
      else Num (a / b))"
| "divide_jsnum (Num a) PosInf = Num 0"
| "divide_jsnum (Num a) NegInf = Num 0"
| "divide_jsnum PosInf (Num b) = (if 0 \<le> b then PosInf else NegInf)"
| "divide_jsnum NegInf (Num b) = (if 0 \<le> b then NegInf else PosInf)"
| "divide_jsnum PosInf PosInf = NaN"
| "divide_jsnum PosInf NegInf = NaN"
| "divide_jsnum NegInf PosInf = NaN"
| "divide_jsnum NegInf NegInf = NaN"
| "divide_jsnum NaN y = NaN"
| "divide_jsnum x NaN = NaN"

definition inverse_jsnum :: "jsnum \<Rightarrow> jsnum" where
  "inverse_jsnum x = divide (Num 1) x"

instance ..

end

text \<open>
  The comparisons \<^verbatim>\<open><\<close>, \<^verbatim>\<open>>\<close> and \<^verbatim>\<open><=\<close>: false as soon as one side is
  not-a-number.
\<close>

fun js_less :: "jsnum \<Rightarrow> jsnum \<Rightarrow> bool" where
  "js_less (Num a) (Num b) = (a < b)"
| "js_less (Num a) PosInf = True"
| "js_less NegInf (Num b) = True"
| "js_less NegInf PosInf = True"
| "js_less x y = False"

definition js_greater :: "jsnum \<Rightarrow> jsnum \<Rightarrow> bool" where
  "js_greater x y = js_less y x"


text \<open>\<^verbatim>\<open>Math.abs\<close>, \<^verbatim>\<open>Math.sqrt\<close> and \<^verbatim>\<open>Math.pow(x, 2)\<close>.\<close>

fun Math_abs :: "jsnum \<Rightarrow> jsnum" where
  "Math_abs (Num a) = Num \<bar>a\<bar>"
| "Math_abs PosInf = PosInf"
| "Math_abs NegInf = PosInf"
| "Math_abs NaN = NaN"



text \<open>An integer parameter (a period, a window size) used as a number.\<close>

definition ofInt :: "int \<Rightarrow> jsnum" where
  "ofInt k = Num (of_int k)"

section \<open>Arrays of the source language\<close>

text \<open>
  Reading an index outside an array gives \<^verbatim>\<open>undefined\<close> (\<open>None\<close>); in arithmetic
  and in comparisons \<^verbatim>\<open>undefined\<close> is converted to not-a-number.
\<close>

definition elemAt :: "'a list \<Rightarrow> int \<Rightarrow> 'a option" where
  "elemAt xs i = (if 0 \<le> i \<and> i < int (length xs) then Some (xs ! nat i) else None)"

fun toNumber :: "jsnum option \<Rightarrow> jsnum" where
  "toNumber None = NaN"
| "toNumber (Some x) = x"

text \<open>
  \<^verbatim>\<open>xs.slice(start, end)\<close> on integers: a negative bound counts from the end of the
  array, both bounds are clamped to the array, and an empty range gives the empty array.
  \<^verbatim>\<open>xs.slice(start)\<close> runs to the end of the array.
\<close>

definition slice :: "'a list \<Rightarrow> int \<Rightarrow> int \<Rightarrow> 'a list" where
  "slice xs start stop =
     (let len = int (length xs);
          k = (if start < 0 then max (len + start) 0 else min start len);
          final = (if stop < 0 then max (len + stop) 0 else min stop len)
      in take (nat (final - k)) (drop (nat k) xs))"

definition sliceFrom :: "'a list \<Rightarrow> int \<Rightarrow> 'a list" where
  "sliceFrom xs start = slice xs start (int (length xs))"

text \<open>
  The two failures of the library: the error thrown by \<^verbatim>\<open>movingAverage\<close> (message
  \<^verbatim>\<open>Not enough data points to calculate moving average\<close>) and the \<^verbatim>\<open>TypeError\<close>
  that \<^verbatim>\<open>reduce\<close> throws on an empty array when it is given no initial value.
\<close>

datatype error = InsufficientDataError | ReduceEmptyTypeError

definition reduce :: "('b \<Rightarrow> 'a \<Rightarrow> 'b) \<Rightarrow> 'b \<Rightarrow> 'a list \<Rightarrow> 'b" where
  "reduce f init xs = foldl f init xs"

definition reduce1 :: "('a \<Rightarrow> 'a \<Rightarrow> 'a) \<Rightarrow> 'a list \<Rightarrow> error + 'a" where
  "reduce1 f xs = (case xs of [] \<Rightarrow> Inl ReduceEmptyTypeError | x # rest \<Rightarrow> Inr (foldl f x rest))"

text \<open>
  \<^verbatim>\<open>for (let i = start; i < bound; i++) body\<close> with a bound that the body does not
  change: the body maps the index and the loop's variables to their new values.
\<close>

function forLoop :: "int \<Rightarrow> int \<Rightarrow> (int \<Rightarrow> 's \<Rightarrow> 's) \<Rightarrow> 's \<Rightarrow> 's" where
  "forLoop i bound body s = (if i < bound then forLoop (i + 1) bound body (body i s) else s)"
  by pat_completeness auto
termination
  by (relation "measure (\<lambda>(i, bound, body, s). nat (bound - i))") auto

declare forLoop.simps [simp del]

section \<open>movingAverage\<close>


section \<open>simpleMovingAverage\<close>



section \<open>MAD\<close>

text \<open>
  The loop runs while \<^verbatim>\<open>i <= numbers.length - windowSize\<close>, that is, on integers,
  while \<^verbatim>\<open>i < numbers.length - windowSize + 1\<close>.
\<close>

definition MAD_body :: "jsnum list \<Rightarrow> int \<Rightarrow> int \<Rightarrow> jsnum list \<Rightarrow> jsnum list" where
  "MAD_body numbers windowSize = (\<lambda>i mad.
     let subset = slice numbers i (i + windowSize);
         avg = reduce (\<lambda>sm v. sm + v) (Num 0) subset / ofInt windowSize;
         deviations = map (\<lambda>v. Math_abs (v - avg)) subset;
         madValue = reduce (\<lambda>sm v. sm + v) (Num 0) deviations / ofInt windowSize
     in mad @ [madValue])"

definition MAD :: "jsnum list \<Rightarrow> int \<Rightarrow> jsnum list" where
  "MAD numbers windowSize =
     forLoop 0 (int (length numbers) - windowSize + 1) (MAD_body numbers windowSize) []"

section \<open>bollingerBands\<close>







section \<open>rsi\<close>

definition calculateAverage :: "jsnum list \<Rightarrow> jsnum" where
  "calculateAverage vs = reduce (\<lambda>a b. a + b) (Num 0) vs / ofInt (int (length vs))"

text \<open>
  The three arrays that \<^verbatim>\<open>rsi\<close> builds before its seed: the deltas of adjacent
  values, their gains and their losses.
\<close>

definition rsi_deltas :: "jsnum list \<Rightarrow> jsnum list" where
  "rsi_deltas vs =
     forLoop 1 (int (length vs))
       (\<lambda>i deltas. deltas @ [toNumber (elemAt vs i) - toNumber (elemAt vs (i - 1))])
       []"

definition rsi_gains :: "jsnum list \<Rightarrow> jsnum list" where
  "rsi_gains deltas = map (\<lambda>delta. if js_greater delta (Num 0) then delta else Num 0) deltas"

definition rsi_losses :: "jsnum list \<Rightarrow> jsnum list" where
  "rsi_losses deltas =
     map (\<lambda>delta. if js_less delta (Num 0) then Math_abs delta else Num 0) deltas"

text \<open>The value pushed for a relative strength \<^verbatim>\<open>rs\<close>.\<close>

definition rsi_value :: "jsnum \<Rightarrow> jsnum" where
  "rsi_value rs = Num 100 - Num 100 / (Num 1 + rs)"

text \<open>One round of the smoothing loop, on \<^verbatim>\<open>avgGain\<close>, \<^verbatim>\<open>avgLoss\<close> and the output.\<close>

definition rsi_step :: "int \<Rightarrow> jsnum list \<Rightarrow> int \<Rightarrow> jsnum \<times> jsnum \<times> jsnum list
    \<Rightarrow> jsnum \<times> jsnum \<times> jsnum list" where
  "rsi_step period deltas i = (\<lambda>(avgGain, avgLoss, out).
     let delta = toNumber (elemAt deltas (i - 1));
         gain = (if js_greater delta (Num 0) then delta else Num 0);
         loss = (if js_less delta (Num 0) then Math_abs delta else Num 0);
         avgGain = (avgGain * ofInt (period - 1) + gain) / ofInt period;
         avgLoss = (avgLoss * ofInt (period - 1) + loss) / ofInt period;
         rs = avgGain / avgLoss
     in (avgGain, avgLoss, out @ [rsi_value rs]))"

text \<open>
  The seed and the smoothing loop run up to the index \<open>bound\<close>: the values of
  \<^verbatim>\<open>avgGain\<close>, \<^verbatim>\<open>avgLoss\<close> and of the output at that point. The source runs the loop
  up to \<^verbatim>\<open>values.length\<close> and returns the output.
\<close>

definition rsi_run :: "int \<Rightarrow> jsnum list \<Rightarrow> int \<Rightarrow> jsnum \<times> jsnum \<times> jsnum list" where
  "rsi_run period vs bound =
     (let deltas = rsi_deltas vs;
          gains = rsi_gains deltas;
          losses = rsi_losses deltas;
          avgGain = calculateAverage (slice gains 0 period);
          avgLoss = calculateAverage (slice losses 0 period);
          rs = avgGain / avgLoss
      in forLoop period bound (rsi_step period deltas) (avgGain, avgLoss, [rsi_value rs]))"

text \<open>The options object is taken apart on entry, as the source does.\<close>

datatype RSIOptions = RSIOptions int "jsnum list"

fun rsi :: "RSIOptions \<Rightarrow> jsnum list" where
  "rsi (RSIOptions period vs) = snd (snd (rsi_run period vs (int (length vs))))"

section \<open>ema and macd\<close>

text \<open>
  A candle holds, in this order: time, open, high, low, close, volume. The record that
  \<^verbatim>\<open>macd\<close> builds spreads a candle, which is absent when the index is outside
  \<^verbatim>\<open>candles\<close>, and attaches \<^verbatim>\<open>macdLine\<close>. The keys are those that select a number;
  a field of an absent candle reads \<^verbatim>\<open>undefined\<close>.
\<close>

datatype Candle = Candle int jsnum jsnum jsnum jsnum jsnum

datatype CandleWithMacdLine = CandleWithMacdLine "Candle option" jsnum

datatype CandleKey = KeyOpen | KeyHigh | KeyLow | KeyClose | KeyVolume | KeyMacdLine

fun candleField :: "CandleWithMacdLine \<Rightarrow> CandleKey \<Rightarrow> jsnum option" where
  "candleField (CandleWithMacdLine c m) KeyMacdLine = Some m"
| "candleField (CandleWithMacdLine None m) k = None"
| "candleField (CandleWithMacdLine (Some (Candle t opn hi lo cl vol)) m) KeyOpen = Some opn"
| "candleField (CandleWithMacdLine (Some (Candle t opn hi lo cl vol)) m) KeyHigh = Some hi"
| "candleField (CandleWithMacdLine (Some (Candle t opn hi lo cl vol)) m) KeyLow = Some lo"
| "candleField (CandleWithMacdLine (Some (Candle t opn hi lo cl vol)) m) KeyClose = Some cl"
| "candleField (CandleWithMacdLine (Some (Candle t opn hi lo cl vol)) m) KeyVolume = Some vol"

text \<open>An element of \<^verbatim>\<open>prices\<close>: the field when the index is in range, else \<^verbatim>\<open>undefined\<close>.\<close>

definition priceAt :: "jsnum option list \<Rightarrow> int \<Rightarrow> jsnum option" where
  "priceAt prices i = (case elemAt prices i of None \<Rightarrow> None | Some v \<Rightarrow> v)"

definition ema_step :: "jsnum option list \<Rightarrow> int \<Rightarrow> int \<Rightarrow> jsnum \<times> jsnum list
    \<Rightarrow> jsnum \<times> jsnum list" where
  "ema_step prices period i = (\<lambda>(e, emaArray).
     let e = toNumber (priceAt prices i) * (Num 2 / ofInt (period + 1))
               + e * (Num 1 - Num 2 / ofInt (period + 1))
     in (e, emaArray @ [e]))"

definition ema :: "CandleWithMacdLine list \<Rightarrow> int \<Rightarrow> CandleKey \<Rightarrow> error + jsnum list" where
  "ema candles period key =
     (let prices = map (\<lambda>candle. candleField candle key) candles
      in case reduce1 (\<lambda>a b. Some (toNumber a + toNumber b)) (slice prices 0 period) of
           Inl err \<Rightarrow> Inl err
         | Inr sm \<Rightarrow>
             let e = toNumber sm / ofInt period
             in Inr (snd (forLoop period (int (length prices)) (ema_step prices period)
                            (e, [e]))))"

text \<open>
  The values that \<^verbatim>\<open>macd\<close> binds before its result: the two trimmed sequences, the
  macd line and the signal line.
\<close>

definition macd_shortEMAValues :: "jsnum list \<Rightarrow> jsnum list \<Rightarrow> jsnum list" where
  "macd_shortEMAValues shortEMA longEMA =
     sliceFrom shortEMA (int (length longEMA) - int (length shortEMA))"

definition macd_longEMAValues :: "jsnum list \<Rightarrow> jsnum list \<Rightarrow> jsnum list" where
  "macd_longEMAValues shortEMA longEMA =
     sliceFrom longEMA (int (length longEMA) - int (length shortEMA))"

definition macd_macdLine :: "jsnum list \<Rightarrow> jsnum list \<Rightarrow> jsnum list" where
  "macd_macdLine shortEMA longEMA =
     map (\<lambda>(i, e). e - toNumber (elemAt (macd_longEMAValues shortEMA longEMA) (int i)))
       (enumerate 0 (macd_shortEMAValues shortEMA longEMA))"

definition macd_signalLine :: "Candle list \<Rightarrow> jsnum list \<Rightarrow> jsnum list \<Rightarrow> int
    \<Rightarrow> error + jsnum list" where
  "macd_signalLine candles shortEMA longEMA signalPeriod =
     ema (map (\<lambda>(i, v).
                 CandleWithMacdLine
                   (elemAt candles (int i + int (length longEMA) - int (length shortEMA))) v)
            (enumerate 0 (macd_macdLine shortEMA longEMA)))
       signalPeriod KeyMacdLine"

definition macd :: "Candle list \<Rightarrow> jsnum list \<Rightarrow> jsnum list \<Rightarrow> int \<Rightarrow> error + jsnum list" where
  "macd candles shortEMA longEMA signalPeriod =
     (case macd_signalLine candles shortEMA longEMA signalPeriod of
        Inl err \<Rightarrow> Inl err
      | Inr signalLine \<Rightarrow>
          Inr (map (\<lambda>(i, v). v - toNumber (elemAt signalLine (int i)))
                 (enumerate 0 (macd_macdLine shortEMA longEMA))))"

section \<open>calculateAD\<close>





section \<open>General facts\<close>

lemma forLoop_skip: "bound \<le> i \<Longrightarrow> forLoop i bound body s = s"
  by (simp add: forLoop.simps)

text \<open>The rule of the loop: an invariant of the index and the variables.\<close>

lemma forLoop_rule:
  assumes "P i s"
    and "\<And>j t. i \<le> j \<Longrightarrow> j < bound \<Longrightarrow> P j t \<Longrightarrow> P (j + 1) (body j t)"
    and "i \<le> bound"
  shows "P bound (forLoop i bound body s)"
  using assms
proof (induction i bound body s rule: forLoop.induct)
  case (1 i bound body s)
  show ?case
  proof (cases "i < bound")
    case True
    have "P bound (forLoop (i + 1) bound body (body i s))"
    proof (rule "1.IH" [OF True])
      show "P (i + 1) (body i s)" using "1.prems"(1,2) True by simp
      show "\<And>j t. i + 1 \<le> j \<Longrightarrow> j < bound \<Longrightarrow> P j t \<Longrightarrow> P (j + 1) (body j t)"
        using "1.prems"(2) by simp
      show "i + 1 \<le> bound" using True by simp
    qed
    then show ?thesis using True by (subst forLoop.simps) simp
  next
    case False
    then have "i = bound" using "1.prems"(3) by simp
    then show ?thesis using "1.prems"(1) by (simp add: forLoop_skip)
  qed
qed

lemma Num_minus_Num [simp]: "Num a - Num b = Num (a - b)"
  by (simp add: minus_jsnum_def)




section \<open>movingAverage: the mean of the last N values, and its two failures\<close>




section \<open>simpleMovingAverage: length and windows\<close>







section \<open>Lengths of the outputs of MAD and rsi\<close>

text \<open>A loop whose body appends one element to the output in every round.\<close>

lemma forLoop_append_length:
  assumes "\<And>j t. length (out (body j t)) = Suc (length (out t))"
  shows "length (out (forLoop i bound body s)) = length (out s) + nat (bound - i)"
proof (cases "i \<le> bound")
  case True
  let ?P = "\<lambda>j t. i \<le> j \<and> length (out t) = length (out s) + nat (j - i)"
  have "?P bound (forLoop i bound body s)"
  proof (rule forLoop_rule [where P = ?P])
    show "?P i s" by simp
    show "\<And>j t. i \<le> j \<Longrightarrow> j < bound \<Longrightarrow> ?P j t \<Longrightarrow> ?P (j + 1) (body j t)"
      by (simp add: assms) linarith
    show "i \<le> bound" by (rule True)
  qed
  then show ?thesis by simp
next
  case False
  then show ?thesis by (simp add: forLoop_skip)
qed

text \<open>
  C6, as the code has it. For every array and every integer window the output has
  \<open>max(0, numbers.length - windowSize + 1)\<close> elements: \<open>numbers.length - windowSize + 1\<close>
  when \<open>1 \<le> windowSize \<le> numbers.length\<close>, none when \<open>windowSize > numbers.length\<close>,
  and, since the loop bound \<open>numbers.length - windowSize\<close> is then at least
  \<open>numbers.length\<close>, \<open>numbers.length - windowSize + 1 \<ge> 1\<close> elements when
  \<open>windowSize \<le> 0\<close>. The function is total (there is no failure path).
\<close>

theorem MAD_length:
  "length (MAD numbers windowSize) = nat (max 0 (int (length numbers) - windowSize + 1))"
proof -
  have "length (MAD numbers windowSize)
          = length ([] :: jsnum list) + nat (int (length numbers) - windowSize + 1 - 0)"
    unfolding MAD_def
    by (rule forLoop_append_length [where out = "\<lambda>t. t"]) (simp add: MAD_body_def Let_def)
  then show ?thesis by simp
qed

text \<open>On \<^verbatim>\<open>[1,2,4]\<close> with a window of 2 there are two windows.\<close>

theorem MAD_length_witness: "length (MAD [Num 1, Num 2, Num 4] 2) = 2"
  using MAD_length [of "[Num 1, Num 2, Num 4]" 2] by simp

text \<open>
  C6 as written says that every \<open>windowSize \<le> 0\<close> gives the empty sequence. On the empty
  array with \<open>windowSize = 0\<close> the loop runs once and the output is not empty.
\<close>

theorem MAD_nonpositive_counterexample: "MAD [] 0 \<noteq> []"
proof -
  have "length (MAD [] 0) = 1"
    unfolding MAD_def
    by (subst forLoop_append_length [where out = "\<lambda>t. t"]) (simp_all add: MAD_body_def Let_def)
  then show ?thesis by auto
qed

lemma rsi_run_length:
  "length (snd (snd (rsi_run period vs bound))) = 1 + nat (bound - period)"
proof -
  have "\<And>s. length (snd (snd (forLoop period bound (rsi_step period ds) s)))
          = length (snd (snd s)) + nat (bound - period)" for ds
    by (rule forLoop_append_length [where out = "\<lambda>t. snd (snd t)"])
       (simp add: rsi_step_def Let_def case_prod_beta)
  then show ?thesis by (simp add: rsi_run_def Let_def)
qed

lemma rsi_length:
  "length (rsi (RSIOptions period vs)) = 1 + nat (int (length vs) - period)"
  by (simp add: rsi_run_length)

text \<open>
  C3 says that \<^verbatim>\<open>rsi\<close> returns \<open>values.length - period\<close> elements. The output starts
  with the seed value and the loop, which starts at \<^verbatim>\<open>i = period\<close> and reads
  \<^verbatim>\<open>deltas[i - 1]\<close>, pushes \<open>values.length - period\<close> more (\<open>rsi_length\<close>): its first
  round smooths over \<^verbatim>\<open>deltas[period - 1]\<close>, which the seed has averaged already. On
  \<^verbatim>\<open>rsi({period: 2, values: [1,2,3,4]})\<close> the output has three elements, not two.
\<close>

theorem rsi_length_example:
  "length (rsi (RSIOptions 2 [Num 1, Num 2, Num 3, Num 4])) = 3"
  by (simp only: rsi_length) simp


section \<open>rsi on increasing values\<close>


lemma slice_from_zero: "0 \<le> p \<Longrightarrow> slice zs 0 p = take (nat p) zs"
  by (simp add: slice_def Let_def min_def)










section \<open>bollingerBands: placeholders, bands and their order\<close>











section \<open>calculateAD: the running sum of the money-flow volume\<close>




section \<open>macd: the result, the signal line and the alignment\<close>

lemma minus_NaN: "x - NaN = NaN"
  by (cases x) (simp_all add: minus_jsnum_def)

lemma ema_length:
  assumes "ema candles period key = Inr out"
  shows "length out = 1 + nat (int (length candles) - period)"
proof -
  let ?prices = "map (\<lambda>candle. candleField candle key) candles"
  obtain sm where sm: "reduce1 (\<lambda>a b. Some (toNumber a + toNumber b)) (slice ?prices 0 period) = Inr sm"
    using assms by (auto simp: ema_def Let_def split: sum.splits)
  let ?e = "toNumber sm / ofInt period"
  have out: "out = snd (forLoop period (int (length ?prices)) (ema_step ?prices period) (?e, [?e]))"
    using assms sm by (simp add: ema_def Let_def)
  have "length (snd (forLoop period (int (length ?prices)) (ema_step ?prices period) (?e, [?e])))
          = length (snd (?e, [?e])) + nat (int (length ?prices) - period)"
    by (rule forLoop_append_length [where out = snd])
       (simp add: ema_step_def Let_def case_prod_beta)
  then show ?thesis by (simp add: out)
qed

lemma macd_length:
  "macd candles shortEMA longEMA signalPeriod = Inr res
     \<Longrightarrow> length res = length (macd_macdLine shortEMA longEMA)"
  by (auto simp: macd_def split: sum.splits)

lemma macd_signalLine_length:
  assumes "macd_signalLine candles shortEMA longEMA signalPeriod = Inr sig"
  shows "length sig = 1 + nat (int (length (macd_macdLine shortEMA longEMA)) - signalPeriod)"
  using ema_length [OF assms [unfolded macd_signalLine_def]] by simp

text \<open>
  \<^verbatim>\<open>macd\<close> returns when the signal line can be computed, that is when \<^verbatim>\<open>ema\<close> does
  not fail on an empty seed window; it does return for a signal period of at least 1 on
  a macd line that is not empty.
\<close>

lemma ema_returns:
  assumes "1 \<le> period" and "candles \<noteq> []"
  shows "\<exists>out. ema candles period key = Inr out"
proof -
  let ?prices = "map (\<lambda>candle. candleField candle key) candles"
  have s: "slice ?prices 0 period = take (nat period) ?prices"
    using assms(1) by (simp add: slice_from_zero)
  have "take (nat period) ?prices \<noteq> []" using assms by simp
  then have "slice ?prices 0 period \<noteq> []" using s by simp
  then obtain x rest where "slice ?prices 0 period = x # rest"
    by (meson neq_Nil_conv)
  then show ?thesis by (simp add: ema_def reduce1_def Let_def)
qed

lemma macd_returns:
  assumes "1 \<le> signalPeriod" and "macd_macdLine shortEMA longEMA \<noteq> []"
  shows "\<exists>res sig. macd candles shortEMA longEMA signalPeriod = Inr res
           \<and> macd_signalLine candles shortEMA longEMA signalPeriod = Inr sig"
proof -
  have "enumerate 0 (macd_macdLine shortEMA longEMA) \<noteq> []"
    using assms(2) by (cases "macd_macdLine shortEMA longEMA") simp_all
  then have "\<exists>sig. macd_signalLine candles shortEMA longEMA signalPeriod = Inr sig"
    unfolding macd_signalLine_def
    by (intro ema_returns [OF assms(1)]) simp
  then show ?thesis by (auto simp: macd_def)
qed

text \<open>
  C9, as the code has it. Whenever \<^verbatim>\<open>macd\<close> returns, its result has the length of the
  macd line. When moreover \<open>signalPeriod \<le> macdLine.length\<close>, the signal line has
  \<open>signalPeriod - 1\<close> elements fewer than the macd line, and at every index
  \<open>i \<ge> macdLine.length - signalPeriod + 1\<close> the final subtraction reads a signal-line
  index that does not exist and the result is not-a-number.
\<close>

theorem macd_length_and_tail:
  assumes "macd candles shortEMA longEMA signalPeriod = Inr res"
    and "macd_signalLine candles shortEMA longEMA signalPeriod = Inr sig"
  shows "length res = length (macd_macdLine shortEMA longEMA)
    \<and> (signalPeriod \<le> int (length (macd_macdLine shortEMA longEMA)) \<longrightarrow>
          int (length sig) = int (length (macd_macdLine shortEMA longEMA)) - (signalPeriod - 1)
          \<and> (\<forall>i. int (length (macd_macdLine shortEMA longEMA)) - signalPeriod + 1 \<le> int i
                  \<and> i < length (macd_macdLine shortEMA longEMA)
                \<longrightarrow> elemAt sig (int i) = None \<and> res ! i = NaN))"
proof (intro conjI impI allI)
  let ?ml = "macd_macdLine shortEMA longEMA"
  show "length res = length ?ml" using assms(1) by (rule macd_length)
  assume p: "signalPeriod \<le> int (length ?ml)"
  have ls: "length sig = 1 + nat (int (length ?ml) - signalPeriod)"
    using assms(2) by (rule macd_signalLine_length)
  then show "int (length sig) = int (length ?ml) - (signalPeriod - 1)" using p by simp
  fix i
  assume i: "int (length ?ml) - signalPeriod + 1 \<le> int i \<and> i < length ?ml"
  have "int (length sig) \<le> int i" using ls p i by simp
  then show none: "elemAt sig (int i) = None" by (simp add: elemAt_def)
  have res: "res = map (\<lambda>(i, v). v - toNumber (elemAt sig (int i))) (enumerate 0 ?ml)"
    using assms by (simp add: macd_def)
  show "res ! i = NaN"
    using i by (simp add: res nth_enumerate_eq none minus_NaN)
qed

text \<open>The definitions that evaluate \<^verbatim>\<open>macd\<close> on a concrete input.\<close>

lemmas macd_eval = macd_def macd_signalLine_def macd_macdLine_def macd_shortEMAValues_def
  macd_longEMAValues_def sliceFrom_def slice_def ema_def ema_step_def reduce1_def
  elemAt_def priceAt_def ofInt_def minus_jsnum_def Let_def forLoop.simps

text \<open>
  Short EMA \<^verbatim>\<open>[3,5,9]\<close>, long EMA \<^verbatim>\<open>[1,2,3]\<close>, signal period 2: the macd line is
  \<^verbatim>\<open>[2,3,6]\<close>, the signal line has two elements and the last result is not-a-number.
\<close>

theorem macd_length_and_tail_witness:
  "macd [] [Num 3, Num 5, Num 9] [Num 1, Num 2, Num 3] 2
     = Inr [Num (- (1 / 2)), Num (- (11 / 6)), NaN]
   \<and> macd_signalLine [] [Num 3, Num 5, Num 9] [Num 1, Num 2, Num 3] 2
     = Inr [Num (5 / 2), Num (29 / 6)]
   \<and> length (macd_macdLine [Num 3, Num 5, Num 9] [Num 1, Num 2, Num 3]) = 3
   \<and> elemAt [Num (5 / 2), Num (29 / 6)] (int 2) = None
   \<and> [Num (- (1 / 2)), Num (- (11 / 6)), NaN] ! 2 = NaN"
proof -
  let ?s = "[Num 3, Num 5, Num 9]" and ?l = "[Num 1, Num 2, Num 3]"
  have h1: "macd [] ?s ?l 2 = Inr [Num (- (1 / 2)), Num (- (11 / 6)), NaN]"
    by (simp add: macd_eval)
  have h2: "macd_signalLine [] ?s ?l 2 = Inr [Num (5 / 2), Num (29 / 6)]"
    by (simp add: macd_eval)
  have len: "length (macd_macdLine ?s ?l) = 3"
    using macd_length_and_tail [OF h1 h2] by simp
  have p: "2 \<le> int (length (macd_macdLine ?s ?l))" by (simp add: len)
  have "elemAt [Num (5 / 2), Num (29 / 6)] (int 2) = None
          \<and> [Num (- (1 / 2)), Num (- (11 / 6)), NaN] ! 2 = NaN"
    using macd_length_and_tail [OF h1 h2, THEN conjunct2, THEN mp, OF p, THEN conjunct2,
        THEN spec, of 2]
    by (simp add: len)
  then show ?thesis using h1 h2 len by simp
qed

text \<open>
  C9 as written speaks of all inputs. With a signal period above the length of the macd
  line (macd line \<^verbatim>\<open>[2,3]\<close>, period 3) the seed of \<^verbatim>\<open>ema\<close> takes the whole line,
  the signal line has one element, which is not \<open>2 - (3 - 1) = 0\<close>, and the result at
  index 0, an index \<open>\<ge> 2 - 3 + 1\<close>, is the number 1/3.
\<close>

theorem macd_long_signalPeriod_counterexample:
  "macd [] [Num 3, Num 5] [Num 1, Num 2] 3 = Inr [Num (1 / 3), NaN]
   \<and> macd_signalLine [] [Num 3, Num 5] [Num 1, Num 2] 3 = Inr [Num (5 / 3)]
   \<and> int (length (macd_macdLine [Num 3, Num 5] [Num 1, Num 2])) - 3 + 1 \<le> 0
   \<and> int (length [Num (5 / 3)])
        \<noteq> int (length (macd_macdLine [Num 3, Num 5] [Num 1, Num 2])) - (3 - 1)"
  by (simp add: macd_eval)

lemma length_sliceFrom:
  "length (sliceFrom xs k)
     = (if k < 0 then min (nat (- k)) (length xs) else length xs - nat k)"
  by (auto simp: sliceFrom_def slice_def Let_def min_def max_def)

lemma macd_macdLine_length:
  "length (macd_macdLine shortEMA longEMA)
     = (if length shortEMA \<le> length longEMA
        then length shortEMA - (length longEMA - length shortEMA)
        else length shortEMA - length longEMA)"
  by (auto simp: macd_macdLine_def macd_shortEMAValues_def length_sliceFrom)

text \<open>
  C4 says that the two aligned sequences have the length of the shorter input and that
  the macd line has \<open>min(shortEMA.length, longEMA.length)\<close> elements. The same offset
  \<^verbatim>\<open>longEMA.length - shortEMA.length\<close> is passed to both calls of \<^verbatim>\<open>slice\<close>: when it is
  negative each call keeps that many last elements, when it is positive it is dropped
  from the front of the shorter sequence as well (\<open>macd_macdLine_length\<close>). With three
  short and two long values, and with two short and three long values, the macd line has
  one element, not two.
\<close>

theorem macd_alignment_example:
  "macd_shortEMAValues [Num 1, Num 2, Num 3] [Num 10, Num 20] = [Num 3]
   \<and> macd_longEMAValues [Num 1, Num 2, Num 3] [Num 10, Num 20] = [Num 20]
   \<and> macd_macdLine [Num 1, Num 2, Num 3] [Num 10, Num 20] = [Num (- 17)]
   \<and> macd_shortEMAValues [Num 1, Num 2] [Num 10, Num 20, Num 30] = [Num 2]
   \<and> macd_longEMAValues [Num 1, Num 2] [Num 10, Num 20, Num 30] = [Num 20, Num 30]
   \<and> macd_macdLine [Num 1, Num 2] [Num 10, Num 20, Num 30] = [Num (- 18)]"
  by (simp add: macd_eval)

end
